theory Spec2Isabelle
  imports Main "HOL-Library.Word" "HOL-Library.AList"
begin

section \<open>Text, kinds and values\<close>

text \<open>
  The package scans its SQL templates rune by rune (\<^verbatim>\<open>runes = []rune(sqlS)\<close>) and
  writes its output rune by rune, so text is modelled as the sequence of its code
  points: a string stands for well-formed UTF-8 text (Go's conversion to runes would
  replace an ill-formed byte by U+FFFD). A Go \<^verbatim>\<open>rune\<close> is a signed 32-bit integer;
  only equality of runes is used by the code, so runes are integers. String literals
  of the source are written \<open>str ''...''\<close>.
\<close>

type_synonym rune = int
type_synonym gostring = "rune list"

definition str :: "string \<Rightarrow> gostring" where
  "str s = map of_char s"

text \<open>
  \<^verbatim>\<open>reflect.Kind\<close>, in the order of the Go declaration; \<^verbatim>\<open>reflect.Int\<close> is \<open>KInt\<close>
  and so on (\<open>Int\<close> is taken in HOL).
\<close>

datatype kind =
    KInvalid | KBool | KInt | KInt8 | KInt16 | KInt32 | KInt64
  | KUint | KUint8 | KUint16 | KUint32 | KUint64 | KUintptr
  | KFloat32 | KFloat64 | KComplex64 | KComplex128
  | KArray | KChan | KFunc | KInterface | KMap | KPtr | KSlice | KString | KStruct
  | KUnsafePointer

text \<open>
  A struct field as \<^verbatim>\<open>reflect.StructField\<close> shows it to \<^verbatim>\<open>getStructInfo\<close>: its name,
  the value of its \<^verbatim>\<open>db\<close> tag (\<^verbatim>\<open>field.Tag.Get("db")\<close>, empty when there is none),
  its package path (empty for an exported field) and the kind of its type.
\<close>

record field =
  Name :: gostring
  Tag_db :: gostring
  PkgPath :: gostring
  Type_Kind :: kind

text \<open>
  Go types as far as the code looks into them: the kind, and for pointers, slices and
  arrays the element type (\<^verbatim>\<open>Type.Elem()\<close>). \<open>Basic k\<close> is a type of kind \<open>k\<close> with
  nothing below it that the code reads; \<^verbatim>\<open>*string\<close> is \<open>PtrTo (Basic KString)\<close>,
  \<^verbatim>\<open>[]byte\<close> is \<open>SliceOf (Basic KUint8)\<close>, a struct type is \<open>Basic KStruct\<close>.
\<close>

datatype gotype = Basic kind | PtrTo gotype | SliceOf gotype | ArrayOf gotype

fun kindOfType :: "gotype \<Rightarrow> kind" where
  "kindOfType (Basic k) = k"
| "kindOfType (PtrTo _) = KPtr"
| "kindOfType (SliceOf _) = KSlice"
| "kindOfType (ArrayOf _) = KArray"

fun Elem :: "gotype \<Rightarrow> gotype" where
  "Elem (PtrTo t) = t"
| "Elem (SliceOf t) = t"
| "Elem (ArrayOf t) = t"
| "Elem (Basic k) = Basic KInvalid"

text \<open>
  Go values as they arrive in an \<^verbatim>\<open>interface{}\<close>. \<open>NilV\<close> is the nil interface. A
  pointer carries its element type and is nil (\<open>None\<close>) or points to a value; a
  slice carries its element type and is nil or has elements; an array has elements.
  \<open>IntV k n\<close> is the integer \<open>n\<close> of one of the integer kinds. A struct value is the
  list of its fields with their values. \<open>TimeV z\<close> is a \<^verbatim>\<open>time.Time\<close> and
  \<open>OtherV k z\<close> a value of any remaining kind (floats, complex numbers, maps,
  channels, functions); of these the code only asks for the kind and whether the value
  equals the zero value of its type, which is the flag \<open>z\<close>. Values of named types
  (\<^verbatim>\<open>type ID int64\<close>) are not told apart from values of their underlying types.
\<close>

datatype val =
    NilV
  | BoolV bool
  | IntV kind int
  | StringV gostring
  | PtrV gotype "val option"
  | SliceV gotype "val list option"
  | ArrayV gotype "val list"
  | StructV "(field \<times> val) list"
  | TimeV bool
  | OtherV kind bool

text \<open>\<^verbatim>\<open>reflect.TypeOf\<close> of a value that is not the nil interface.\<close>

fun typeOf :: "val \<Rightarrow> gotype" where
  "typeOf NilV = Basic KInvalid"
| "typeOf (BoolV _) = Basic KBool"
| "typeOf (IntV k _) = Basic k"
| "typeOf (StringV _) = Basic KString"
| "typeOf (PtrV t _) = PtrTo t"
| "typeOf (SliceV t _) = SliceOf t"
| "typeOf (ArrayV t _) = ArrayOf t"
| "typeOf (StructV _) = Basic KStruct"
| "typeOf (TimeV _) = Basic KStruct"
| "typeOf (OtherV k _) = Basic k"

text \<open>\<^verbatim>\<open>rv.Len()\<close> and the elements \<^verbatim>\<open>rv.Index(i).Interface()\<close> of a slice or array.\<close>

fun items :: "val \<Rightarrow> val list" where
  "items (SliceV _ (Some xs)) = xs"
| "items (ArrayV _ xs) = xs"
| "items _ = []"

text \<open>
  \<^verbatim>\<open>reflect.DeepEqual(x, reflect.Zero(reflect.TypeOf(x)).Interface())\<close>, per kind: the
  number zero, false, the empty string, a nil pointer, a nil slice (an empty slice that
  is not nil differs from it), an array or struct of zero elements or fields; an
  element or field of an interface type is zero only when it is the nil interface.
\<close>

fun deepZero :: "val \<Rightarrow> bool" where
  "deepZero NilV = True"
| "deepZero (BoolV b) = (\<not> b)"
| "deepZero (IntV k n) = (n = 0)"
| "deepZero (StringV s) = (s = [])"
| "deepZero (PtrV t p) = (p = None)"
| "deepZero (SliceV t xs) = (xs = None)"
| "deepZero (ArrayV t xs) =
     (\<forall>x \<in> set xs. if kindOfType t = KInterface then x = NilV else deepZero x)"
| "deepZero (StructV fs) =
     (\<forall>(f, v) \<in> set fs. if Type_Kind f = KInterface then v = NilV else deepZero v)"
| "deepZero (TimeV z) = z"
| "deepZero (OtherV k z) = z"

text \<open>
  Errors are values. A Go \<^verbatim>\<open>panic\<close> is an error value too, kept apart from the errors
  the functions return by \<open>isPanic\<close>; \<open>PanicReflect\<close> is a panic raised by package
  \<^verbatim>\<open>reflect\<close> or by a nil dereference. \<open>ErrOther\<close> stands for an error produced
  by a collaborator that is not part of the two source files (the driver, the
  three-result value classifier).
\<close>

datatype error =
    PanicUnexportedField gostring
  | PanicPrimaryKeyNotFound gostring
  | PanicUnimplemented
  | PanicReflect
  | ErrExpectingArg nat nat
  | ErrKeyType rune
  | ErrEmptySlice
  | ErrNeedsSlice
  | ErrBulkNeedsSlice
  | ErrNilKey gostring
  | ErrNoKey
  | ErrOther nat
  | PanicWith error

fun isPanic :: "error \<Rightarrow> bool" where
  "isPanic (PanicUnexportedField _) = True"
| "isPanic (PanicPrimaryKeyNotFound _) = True"
| "isPanic PanicUnimplemented = True"
| "isPanic PanicReflect = True"
| "isPanic (PanicWith _) = True"
| "isPanic _ = False"

text \<open>
  \<^verbatim>\<open>isZero\<close> (exec.go, line 410). For the nil interface \<^verbatim>\<open>reflect.TypeOf\<close> is nil and
  \<^verbatim>\<open>reflect.Zero\<close> panics.
\<close>

definition isZero :: "val \<Rightarrow> error + bool" where
  "isZero x = (if x = NilV then Inl PanicReflect else Inr (deepZero x))"

section \<open>util.go: field descriptors\<close>

record fieldInfo =
  name :: gostring
  dbName :: gostring
  omitEmpty :: bool
  primaryKey :: bool
  null_tag :: bool
  notNull :: bool
  emptyValue :: gostring
  ptr :: bool

text \<open>\<^verbatim>\<open>allowNull\<close> returns true if the field can store "null" values.\<close>

definition allowNull :: "fieldInfo \<Rightarrow> bool" where
  "allowNull fi =
     (if ptr fi then (if notNull fi then False else True)
      else if null_tag fi then True
      else False)"

text \<open>
  \<^verbatim>\<open>structInfo\<close> is a Go map from db_name to field descriptor. It is modelled as an
  association list with distinct keys: \<^verbatim>\<open>si[k] = v\<close> is \<open>AList.update k v si\<close>,
  \<^verbatim>\<open>si[k]\<close> is \<open>map_of si k\<close>. Go leaves the iteration order of a map open; the
  loops over a map below are functions of the list of entries in the order they are
  visited.
\<close>

type_synonym structInfo = "(gostring \<times> fieldInfo) list"

definition hasDbName :: "structInfo \<Rightarrow> gostring \<Rightarrow> bool" where
  "hasDbName si db_name = (case map_of si db_name of None \<Rightarrow> False | Some _ \<Rightarrow> True)"

definition primaryKey_of :: "structInfo \<Rightarrow> gostring \<Rightarrow> error + bool" where
  "primaryKey_of si db_name =
     (case map_of si db_name of
        None \<Rightarrow> Inl (PanicPrimaryKeyNotFound db_name)
      | Some fi \<Rightarrow> Inr (primaryKey fi))"

text \<open>
  \<^verbatim>\<open>onlyPrimaryKey\<close>: the loop over the map, with the variable \<^verbatim>\<open>fi\<close> as accumulator;
  a second primary key returns nil at once.
\<close>

fun onlyPrimaryKeyLoop :: "structInfo \<Rightarrow> fieldInfo option \<Rightarrow> fieldInfo option" where
  "onlyPrimaryKeyLoop [] fi = fi"
| "onlyPrimaryKeyLoop ((k, info) # si) fi =
     (if primaryKey info
      then (if fi \<noteq> None then None else onlyPrimaryKeyLoop si (Some info))
      else onlyPrimaryKeyLoop si fi)"

definition onlyPrimaryKey :: "structInfo \<Rightarrow> fieldInfo option" where
  "onlyPrimaryKey si = onlyPrimaryKeyLoop si None"

subsection \<open>getStructInfo\<close>

text \<open>
  \<^verbatim>\<open>strings.Split(s, sep)\<close> of the Go library for a separator of one rune: the pieces
  between the separators, at least one piece.
\<close>

fun Split :: "gostring \<Rightarrow> rune \<Rightarrow> gostring list" where
  "Split [] sep = [[]]"
| "Split (c # cs) sep =
     (if c = sep then [] # Split cs sep
      else (case Split cs sep of [] \<Rightarrow> [[c]] | p # ps \<Rightarrow> (c # p) # ps))"

text \<open>The switch on \<^verbatim>\<open>field.Type.Kind()\<close> (lines 127 to 137).\<close>

definition kindDefaults :: "kind \<Rightarrow> fieldInfo \<Rightarrow> fieldInfo" where
  "kindDefaults k info =
     (case k of
        KPtr \<Rightarrow> info\<lparr>ptr := True, emptyValue := str ''null''\<rparr>
      | KString \<Rightarrow> info\<lparr>emptyValue := str [CHR 0x27, CHR 0x27]\<rparr>
      | KInt \<Rightarrow> info\<lparr>emptyValue := str ''0''\<rparr>
      | _ \<Rightarrow> info\<lparr>emptyValue := str [CHR 0x27, CHR 0x27]\<rparr>)"

text \<open>The switch on a modifier token (lines 147 to 158).\<close>

definition applyModifier :: "gostring \<Rightarrow> fieldInfo \<Rightarrow> fieldInfo" where
  "applyModifier p info =
     (if p = str ''pk'' then info\<lparr>primaryKey := True\<rparr>
      else if p = str ''omitempty'' then info\<lparr>omitEmpty := True\<rparr>
      else if p = str ''null'' then info\<lparr>null_tag := True\<rparr>
      else if p = str ''notnull'' then info\<lparr>notNull := True\<rparr>
      else info)"

text \<open>The loop over \<^verbatim>\<open>path\<close>, which skips index 0: it is run on the tokens after the first.\<close>

fun applyModifiers :: "gostring list \<Rightarrow> fieldInfo \<Rightarrow> fieldInfo" where
  "applyModifiers [] info = info"
| "applyModifiers (p # ps) info = applyModifiers ps (applyModifier p info)"

text \<open>Lines 161 to 163, as the source has them.\<close>

definition fixEmptyValue :: "fieldInfo \<Rightarrow> fieldInfo" where
  "fixEmptyValue info =
     (if allowNull info \<and> emptyValue info = str ''null''
      then info\<lparr>emptyValue := str [CHR 0x27, CHR 0x27]\<rparr>
      else info)"

text \<open>
  The descriptor of one field whose tag has been split into its first token and the
  modifier tokens, as it stands before line 161: lines 116 to 159 without the two
  \<^verbatim>\<open>continue\<close>s. The fields the composite literal leaves out have Go's zero values.
\<close>

definition fieldInfoParsed :: "field \<Rightarrow> gostring \<Rightarrow> gostring list \<Rightarrow> fieldInfo" where
  "fieldInfoParsed f p0 mods =
     (let info = \<lparr>name = Name f, dbName = p0, omitEmpty = False, primaryKey = False,
                   null_tag = False, notNull = False, emptyValue = [], ptr = False\<rparr>;
          info = kindDefaults (Type_Kind f) info;
          info = (if dbName info = [] then info\<lparr>dbName := Name f\<rparr> else info)
      in applyModifiers mods info)"

text \<open>The descriptor that is stored: lines 116 to 163.\<close>

definition fieldInfoOf :: "field \<Rightarrow> gostring \<Rightarrow> gostring list \<Rightarrow> fieldInfo" where
  "fieldInfoOf f p0 mods = fixEmptyValue (fieldInfoParsed f p0 mods)"

text \<open>
  The loop of \<^verbatim>\<open>getStructInfo\<close> over the fields in declaration order. A field with a
  tag and a package path panics; \<^verbatim>\<open>strings.Split\<close> of a non-empty tag has a first
  token.
\<close>

fun getStructInfoLoop :: "field list \<Rightarrow> structInfo \<Rightarrow> error + structInfo" where
  "getStructInfoLoop [] si = Inr si"
| "getStructInfoLoop (f # fs) si =
     (if Tag_db f = [] then getStructInfoLoop fs si
      else if PkgPath f \<noteq> [] then Inl (PanicUnexportedField (Name f))
      else (case Split (Tag_db f) (of_char CHR '','') of
              [] \<Rightarrow> getStructInfoLoop fs si
            | p0 # mods \<Rightarrow>
                if p0 = str ''-'' then getStructInfoLoop fs si
                else (let info = fieldInfoOf f p0 mods
                      in getStructInfoLoop fs (AList.update (dbName info) info si))))"

definition getStructInfo :: "field list \<Rightarrow> error + structInfo" where
  "getStructInfo t = getStructInfoLoop t []"

section \<open>util.go: placeholder substitution\<close>

text \<open>
  Modelled from the spec: the declaration of \<^verbatim>\<open>DB\<close> and of its placeholder modes is
  not in the two source files. The spec gives two configurable rune sigils and a
  placeholder style of two values, which \<^verbatim>\<open>appendPlaceholder\<close> names \<^verbatim>\<open>QUESTION\<close> and
  \<^verbatim>\<open>DOLLAR\<close>. The method \<^verbatim>\<open>db.Esc\<close> is missing too and is a field of the record: the
  theorems hold for every escaping function.
\<close>

datatype placeholderMode = QUESTION | DOLLAR

record DB =
  PlaceholderKey :: rune
  PlaceholderValue :: rune
  PlaceholderMode :: placeholderMode
  Esc :: "gostring \<Rightarrow> gostring"

text \<open>\<^verbatim>\<open>strconv.Itoa\<close> of a number that is not negative: its decimal digits.\<close>

fun Itoa :: "nat \<Rightarrow> gostring" where
  "Itoa n = (if n < 10 then [48 + int n] else Itoa (n div 10) @ [48 + int (n mod 10)])"

text \<open>
  \<^verbatim>\<open>strings.Join(elems, sep)\<close> of the Go library: the elements with the separator
  between them.
\<close>

fun Join :: "gostring list \<Rightarrow> gostring \<Rightarrow> gostring" where
  "Join [] sep = []"
| "Join [x] sep = x"
| "Join (x # y # xs) sep = x @ sep @ Join (y # xs) sep"

text \<open>\<^verbatim>\<open>appendPlaceholder\<close>; the builder \<^verbatim>\<open>sb\<close> is passed in and returned.\<close>

definition appendPlaceholder :: "DB \<Rightarrow> gostring \<Rightarrow> nat \<Rightarrow> gostring" where
  "appendPlaceholder db sb numArg =
     (case PlaceholderMode db of
        QUESTION \<Rightarrow> sb @ str ''?''
      | DOLLAR \<Rightarrow> sb @ str ''$'' @ Itoa numArg)"

text \<open>The text of one placeholder mark: what \<^verbatim>\<open>appendPlaceholder\<close> writes for parameter \<open>n\<close>.\<close>

definition placeholder :: "DB \<Rightarrow> nat \<Rightarrow> gostring" where
  "placeholder db n = appendPlaceholder db [] n"

text \<open>
  \<^verbatim>\<open>driver.IsValue\<close> of \<^verbatim>\<open>database/sql/driver\<close>: nil, \<^verbatim>\<open>[]byte\<close>, \<^verbatim>\<open>bool\<close>,
  \<^verbatim>\<open>float64\<close>, \<^verbatim>\<open>int64\<close>, \<^verbatim>\<open>string\<close> and \<^verbatim>\<open>time.Time\<close>.
\<close>

fun IsValue :: "val \<Rightarrow> bool" where
  "IsValue NilV = True"
| "IsValue (SliceV t _) = (t = Basic KUint8)"
| "IsValue (BoolV _) = True"
| "IsValue (OtherV k _) = (k = KFloat64)"
| "IsValue (IntV k _) = (k = KInt64)"
| "IsValue (StringV _) = True"
| "IsValue (TimeV _) = True"
| "IsValue _ = False"

text \<open>\<^verbatim>\<open>escValue\<close> of util.go (line 286), one result.\<close>

definition escValue :: "val \<Rightarrow> fieldInfo \<Rightarrow> error + val" where
  "escValue v fi =
     (case isZero v of
        Inl e \<Rightarrow> Inl e
      | Inr z \<Rightarrow>
          if z then
            (if allowNull fi then Inr NilV
             else if ptr fi then Inl PanicUnimplemented
             else Inr v)
          else Inr v)"

text \<open>
  The inner loop of the slice expansion (lines 246 to 253) from index \<open>i\<close> on, over the
  remaining elements; it returns the parameter list and the builder.
\<close>

fun expandLoop ::
  "DB \<Rightarrow> fieldInfo \<Rightarrow> val list \<Rightarrow> nat \<Rightarrow> val list \<Rightarrow> gostring \<Rightarrow> error + (val list \<times> gostring)" where
  "expandLoop db fi [] i newArgs sb = Inr (newArgs, sb)"
| "expandLoop db fi (item # rest) i newArgs sb =
     (let sb = (if i > 0 then sb @ str '','' else sb)
      in case escValue item fi of
           Inl e \<Rightarrow> Inl e
         | Inr v \<Rightarrow>
             (let newArgs = newArgs @ [v]
              in expandLoop db fi rest (i + 1) newArgs (appendPlaceholder db sb (length newArgs))))"

text \<open>
  The type switch of the key sigil (lines 220 to 227): a \<^verbatim>\<open>*string\<close> is dereferenced
  (a nil one panics), a \<^verbatim>\<open>string\<close> is taken, anything else is an error.
\<close>

definition keyArg :: "DB \<Rightarrow> rune \<Rightarrow> val \<Rightarrow> error + gostring" where
  "keyArg db currRune arg =
     (case arg of
        PtrV t p \<Rightarrow>
          (if t = Basic KString then
             (case p of
                None \<Rightarrow> Inl PanicReflect
              | Some v \<Rightarrow> (case v of StringV s \<Rightarrow> Inr (Esc db s) | _ \<Rightarrow> Inl (ErrKeyType currRune)))
           else Inl (ErrKeyType currRune))
      | StringV s \<Rightarrow> Inr (Esc db s)
      | _ \<Rightarrow> Inl (ErrKeyType currRune))"

text \<open>
  The main loop of \<^verbatim>\<open>replaceArgs\<close> (lines 189 to 262) over the runes from position \<open>i\<close>
  on, with the state \<^verbatim>\<open>nthArg\<close>, \<^verbatim>\<open>newArgs\<close>, \<^verbatim>\<open>sb\<close>; after the last rune the left
  over arguments are appended (lines 265 to 267). A doubled sigil skips the next rune
  (\<^verbatim>\<open>i++\<close>); \<^verbatim>\<open>nextRune\<close> is 0 at the last rune.
\<close>

definition nextRuneOf :: "gostring \<Rightarrow> rune" where
  "nextRuneOf rest = (case rest of [] \<Rightarrow> 0 | r # _ \<Rightarrow> r)"

function replaceLoop ::
  "DB \<Rightarrow> gostring \<Rightarrow> val list \<Rightarrow> nat \<Rightarrow> val list \<Rightarrow> gostring \<Rightarrow> error + (gostring \<times> val list)" where
  "replaceLoop db [] args nthArg newArgs sb = Inr (sb, newArgs @ drop nthArg args)"
| "replaceLoop db (currRune # rest) args nthArg newArgs sb =
     (let nextRune = nextRuneOf rest in
      if currRune \<noteq> PlaceholderKey db \<and> currRune \<noteq> PlaceholderValue db
      then replaceLoop db rest args nthArg newArgs (sb @ [currRune])
      else if (currRune = PlaceholderValue db \<and> nextRune = PlaceholderValue db) \<or>
              (currRune = PlaceholderKey db \<and> nextRune = PlaceholderKey db)
      then replaceLoop db (tl rest) args nthArg newArgs (sb @ [currRune])
      else if nthArg \<ge> length args
      then Inl (ErrExpectingArg (nthArg + 1) (length args))
      else
        (let arg = args ! nthArg; nthArg = nthArg + 1 in
         if currRune = PlaceholderKey db then
           (case keyArg db currRune arg of
              Inl e \<Rightarrow> Inl e
            | Inr s \<Rightarrow> replaceLoop db rest args nthArg newArgs (sb @ s))
         else if IsValue arg then
           (let newArgs = newArgs @ [arg]
            in replaceLoop db rest args nthArg newArgs (appendPlaceholder db sb (length newArgs)))
         else if arg \<noteq> NilV \<and> kindOfType (typeOf arg) = KSlice \<and> \<not> IsValue arg then
           (if length (items arg) = 0 then Inl ErrEmptySlice
            else
              (let sb = sb @ str ''('';
                   fi = \<lparr>name = [], dbName = [], omitEmpty = False, primaryKey = False,
                         null_tag = False, notNull = False, emptyValue = [],
                         ptr = (kindOfType (Elem (typeOf arg)) = KPtr)\<rparr>
               in case expandLoop db fi (items arg) 0 newArgs sb of
                    Inl e \<Rightarrow> Inl e
                  | Inr (newArgs, sb) \<Rightarrow> replaceLoop db rest args nthArg newArgs (sb @ str '')'')))
         else
           (let newArgs = newArgs @ [arg]
            in replaceLoop db rest args nthArg newArgs (appendPlaceholder db sb (length newArgs)))))"
  by pat_completeness auto
termination
  by (relation "measure (\<lambda>(db, rs, args, nthArg, newArgs, sb). length rs)") auto

definition replaceArgs :: "DB \<Rightarrow> gostring \<Rightarrow> val list \<Rightarrow> error + (gostring \<times> val list)" where
  "replaceArgs db sqlS args = replaceLoop db sqlS args 0 [] []"

section \<open>exec.go\<close>

subsection \<open>checkData\<close>

text \<open>
  \<^verbatim>\<open>reflect.Indirect(reflect.ValueOf(data))\<close>: the value a pointer points to, which is
  addressable, or the value itself, which is not; \<open>None\<close> is the invalid
  \<^verbatim>\<open>reflect.Value\<close> of a nil interface or a nil pointer. The flag is \<^verbatim>\<open>CanAddr()\<close>.
\<close>

fun Indirect :: "val \<Rightarrow> (val \<times> bool) option" where
  "Indirect NilV = None"
| "Indirect (PtrV t None) = None"
| "Indirect (PtrV t (Some v)) = Some (v, True)"
| "Indirect v = Some (v, False)"

text \<open>
  \<^verbatim>\<open>checkData\<close> returns the value and the struct mode, or the error; \<^verbatim>\<open>rv.Type()\<close> of
  an invalid value panics.
\<close>

definition checkData :: "val \<Rightarrow> error + (val \<times> bool)" where
  "checkData data =
     (case Indirect data of
        None \<Rightarrow> Inl PanicReflect
      | Some (rv, canAddr) \<Rightarrow>
          (case kindOfType (typeOf rv) of
             KSlice \<Rightarrow>
               (case kindOfType (Elem (typeOf rv)) of
                  KPtr \<Rightarrow>
                    if kindOfType (Elem (Elem (typeOf rv))) \<noteq> KStruct then Inl ErrNeedsSlice
                    else Inr (rv, False)
                | KStruct \<Rightarrow> Inr (rv, False)
                | _ \<Rightarrow> Inl ErrNeedsSlice)
           | KStruct \<Rightarrow> if \<not> canAddr then Inl ErrNeedsSlice else Inr (rv, True)
           | _ \<Rightarrow> Inl ErrNeedsSlice))"

subsection \<open>valuesFromStruct\<close>

text \<open>
  The fields of a value of kind struct; a \<^verbatim>\<open>time.Time\<close> has no field with a tag.
  \<open>None\<close> for any other value, where \<^verbatim>\<open>NumField\<close> panics.
\<close>

fun structFields :: "val \<Rightarrow> (field \<times> val) list option" where
  "structFields (StructV fs) = Some fs"
| "structFields (TimeV _) = Some []"
| "structFields _ = None"

fun FieldByName :: "(field \<times> val) list \<Rightarrow> gostring \<Rightarrow> (field \<times> val) option" where
  "FieldByName [] n = None"
| "FieldByName ((f, v) # fs) n = (if Name f = n then Some (f, v) else FieldByName fs n)"

type_synonym valueMap = "(gostring \<times> val) list"

text \<open>The loop of \<^verbatim>\<open>valuesFromStruct\<close> over the entries of \<^verbatim>\<open>info\<close> (lines 394 to 405).\<close>

fun valuesLoop :: "(field \<times> val) list \<Rightarrow> structInfo \<Rightarrow> valueMap \<Rightarrow> error + valueMap" where
  "valuesLoop fs [] vals = Inr vals"
| "valuesLoop fs ((k, fieldInfo) # info) vals =
     (case FieldByName fs (name fieldInfo) of
        None \<Rightarrow> Inl PanicReflect
      | Some (f, actualData) \<Rightarrow>
          (case isZero actualData of
             Inl e \<Rightarrow> Inl e
           | Inr z \<Rightarrow>
               if z \<and> omitEmpty fieldInfo then valuesLoop fs info vals
               else valuesLoop fs info (AList.update (dbName fieldInfo) actualData vals)))"

definition valuesFromStruct :: "val \<Rightarrow> error + (valueMap \<times> structInfo)" where
  "valuesFromStruct data =
     (case structFields data of
        None \<Rightarrow> Inl PanicReflect
      | Some fs \<Rightarrow>
          (case getStructInfo (map fst fs) of
             Inl e \<Rightarrow> Inl e
           | Inr info \<Rightarrow>
               (case valuesLoop fs info [] of
                  Inl e \<Rightarrow> Inl e
                | Inr vals \<Rightarrow> Inr (vals, info))))"

subsection \<open>The statement builders\<close>

text \<open>
  exec.go calls \<^verbatim>\<open>db.escValue(value, info)\<close> with three results
  \<^verbatim>\<open>(escV, driverV, err)\<close>; that method is in neither source file (util.go has the
  method of one result). It is a parameter \<open>escv\<close> of the builders, of this type; the
  descriptor is \<^verbatim>\<open>structInfo[key]\<close>, a pointer that is nil for a missing key.
\<close>

type_synonym escValue3 = "val \<Rightarrow> fieldInfo option \<Rightarrow> gostring \<times> val \<times> error option"

text \<open>The loop of \<^verbatim>\<open>insertClauseFromValues\<close> (lines 208 to 220) with \<^verbatim>\<open>cols\<close>, \<^verbatim>\<open>vs\<close>, \<^verbatim>\<open>args\<close>.\<close>

fun insertLoop ::
  "DB \<Rightarrow> escValue3 \<Rightarrow> structInfo \<Rightarrow> valueMap \<Rightarrow> gostring list \<times> gostring list \<times> val list \<Rightarrow>
   error + (gostring list \<times> gostring list \<times> val list)" where
  "insertLoop db escv info [] st = Inr st"
| "insertLoop db escv info ((col, v) # rest) (cols, vs, args) =
     (let cols = cols @ [Esc db col] in
      case escv v (map_of info col) of
        (escV, driverV, Some err) \<Rightarrow> Inl (PanicWith err)
      | (escV, driverV, None) \<Rightarrow>
          if escV = [] then insertLoop db escv info rest (cols, vs @ [str ''?''], args @ [driverV])
          else insertLoop db escv info rest (cols, vs @ [escV], args))"

definition insertClauseFromValues ::
  "DB \<Rightarrow> escValue3 \<Rightarrow> gostring \<Rightarrow> valueMap \<Rightarrow> structInfo \<Rightarrow> error + (gostring \<times> val list)" where
  "insertClauseFromValues db escv table vals info =
     (case insertLoop db escv info vals ([], [], []) of
        Inl e \<Rightarrow> Inl e
      | Inr (cols, vs, args) \<Rightarrow>
          Inr (str ''INSERT INTO '' @ Esc db table @ str '' ('' @ Join cols (str '','') @
               str '') VALUES('' @ Join vs (str '','') @ str '')'', args))"

text \<open>
  The loop of \<^verbatim>\<open>updateClauseFromRow\<close> (lines 246 to 283) over the entries of \<^verbatim>\<open>values\<close>
  in the order they are visited, with the state \<^verbatim>\<open>update\<close>, \<^verbatim>\<open>where\<close>, \<^verbatim>\<open>idx\<close>,
  \<^verbatim>\<open>valid\<close>, \<^verbatim>\<open>args\<close>.
\<close>

fun updateLoop ::
  "DB \<Rightarrow> escValue3 \<Rightarrow> structInfo \<Rightarrow> valueMap \<Rightarrow>
   gostring \<times> gostring \<times> nat \<times> bool \<times> val list \<Rightarrow>
   error + (gostring \<times> gostring \<times> nat \<times> bool \<times> val list)" where
  "updateLoop db escv structInfo [] st = Inr st"
| "updateLoop db escv structInfo ((key, v) # rest) (update, wher, idx, valid, args) =
     (case primaryKey_of structInfo key of
        Inl e \<Rightarrow> Inl e
      | Inr pk \<Rightarrow>
          if pk then
            (case escv v (map_of structInfo key) of
               (escV, driverV, Some err) \<Rightarrow> Inl err
             | (escV, driverV, None) \<Rightarrow>
                 if escV = str ''null'' then Inl (ErrNilKey key)
                 else
                   (let wher = wher @ Esc db key @ str ''='' in
                    if escV = []
                    then updateLoop db escv structInfo rest
                           (update, wher @ [PlaceholderValue db], idx, True, args @ [driverV])
                    else updateLoop db escv structInfo rest
                           (update, wher @ escV, idx, True, args)))
          else
            (let update = (if idx > 0 then update @ str '','' else update);
                 update = update @ Esc db key @ str ''=''
             in case escv v (map_of structInfo key) of
                  (escV, driverV, Some err) \<Rightarrow> Inl err
                | (escV, driverV, None) \<Rightarrow>
                    if escV = []
                    then updateLoop db escv structInfo rest
                           (update @ [PlaceholderValue db], wher, idx + 1, valid, args @ [driverV])
                    else updateLoop db escv structInfo rest
                           (update @ escV, wher, idx + 1, valid, args)))"

text \<open>
  \<^verbatim>\<open>updateClauseFromRow\<close> after its call of \<^verbatim>\<open>valuesFromStruct\<close> (lines 237 to 290), for
  the entries of \<^verbatim>\<open>values\<close> in the order the \<^verbatim>\<open>range\<close> visits them.
\<close>

definition updateClauseFromValues ::
  "DB \<Rightarrow> escValue3 \<Rightarrow> gostring \<Rightarrow> valueMap \<Rightarrow> structInfo \<Rightarrow> error + (gostring \<times> val list)" where
  "updateClauseFromValues db escv table vals structInfo =
     (case updateLoop db escv structInfo vals
             (str ''UPDATE '' @ Esc db table @ str '' SET '', str '' WHERE '', 0, False, []) of
        Inl e \<Rightarrow> Inl e
      | Inr (update, wher, idx, valid, args) \<Rightarrow>
          if \<not> valid then Inl ErrNoKey else Inr (update @ wher, args))"

definition updateClauseFromRow ::
  "DB \<Rightarrow> escValue3 \<Rightarrow> gostring \<Rightarrow> val \<Rightarrow> error + (gostring \<times> val list)" where
  "updateClauseFromRow db escv table row =
     (case valuesFromStruct row of
        Inl e \<Rightarrow> Inl e
      | Inr (vals, structInfo) \<Rightarrow> updateClauseFromValues db escv table vals structInfo)"

subsection \<open>Insert\<close>

text \<open>
  The driver's \<^verbatim>\<open>db.exec(expectedRows, sql, args...)\<close> is not in the source files: it is
  a parameter that takes the state \<open>'c\<close> of the connection and returns the last insert
  id (an \<^verbatim>\<open>int64\<close>) or an error, and the new state.
\<close>

type_synonym 'c exec = "'c \<Rightarrow> int \<Rightarrow> gostring \<Rightarrow> val list \<Rightarrow> (error + 64 word) \<times> 'c"

definition insertStruct ::
  "DB \<Rightarrow> escValue3 \<Rightarrow> 'c exec \<Rightarrow> 'c \<Rightarrow> gostring \<Rightarrow> val \<Rightarrow> (error + (64 word \<times> structInfo)) \<times> 'c" where
  "insertStruct db escv exec conn table row =
     (case valuesFromStruct row of
        Inl e \<Rightarrow> (Inl e, conn)
      | Inr (vals, info) \<Rightarrow>
          (case insertClauseFromValues db escv table vals info of
             Inl e \<Rightarrow> (Inl e, conn)
           | Inr (sql, args) \<Rightarrow>
               (case exec conn 1 sql args of
                  (Inl e, conn') \<Rightarrow> (Inl e, conn')
                | (Inr insert_id, conn') \<Rightarrow> (Inr (insert_id, info), conn'))))"

text \<open>
  \<^verbatim>\<open>reflect.Value.SetInt\<close> stores the \<^verbatim>\<open>int64\<close> in a field of a signed integer kind,
  cut to the width of the kind (\<^verbatim>\<open>int\<close> has 64 bits here), and panics for every other
  kind.
\<close>

definition setInt :: "kind \<Rightarrow> 64 word \<Rightarrow> int option" where
  "setInt k x =
     (case k of
        KInt \<Rightarrow> Some (sint x)
      | KInt8 \<Rightarrow> Some (sint (ucast x :: 8 word))
      | KInt16 \<Rightarrow> Some (sint (ucast x :: 16 word))
      | KInt32 \<Rightarrow> Some (sint (ucast x :: 32 word))
      | KInt64 \<Rightarrow> Some (sint x)
      | _ \<Rightarrow> None)"

text \<open>\<^verbatim>\<open>row.FieldByName(n).SetInt(x)\<close>: the fields of the record with the field set.\<close>

fun SetIntField :: "(field \<times> val) list \<Rightarrow> gostring \<Rightarrow> 64 word \<Rightarrow> error + (field \<times> val) list" where
  "SetIntField [] n x = Inl PanicReflect"
| "SetIntField ((f, v) # fs) n x =
     (if Name f = n then
        (case setInt (Type_Kind f) x of
           None \<Rightarrow> Inl PanicReflect
         | Some i \<Rightarrow> Inr ((f, IntV (Type_Kind f) i) # fs))
      else
        (case SetIntField fs n x of
           Inl e \<Rightarrow> Inl e
         | Inr fs' \<Rightarrow> Inr ((f, v) # fs')))"

text \<open>
  What \<^verbatim>\<open>Insert\<close> does with one record, in struct mode (lines 94 to 101) and for each
  element of a slice (lines 84 to 91): the record after the call.
\<close>

definition insertOne ::
  "DB \<Rightarrow> escValue3 \<Rightarrow> 'c exec \<Rightarrow> 'c \<Rightarrow> gostring \<Rightarrow> val \<Rightarrow> (error + val) \<times> 'c" where
  "insertOne db escv exec conn table row =
     (case insertStruct db escv exec conn table row of
        (Inl e, conn') \<Rightarrow> (Inl e, conn')
      | (Inr (insert_id, structInfo), conn') \<Rightarrow>
          (case onlyPrimaryKey structInfo of
             None \<Rightarrow> (Inr row, conn')
           | Some pk \<Rightarrow>
               (case row of
                  StructV fs \<Rightarrow>
                    (case SetIntField fs (name pk) insert_id of
                       Inl e \<Rightarrow> (Inl e, conn')
                     | Inr fs' \<Rightarrow> (Inr (StructV fs'), conn'))
                | _ \<Rightarrow> (Inl PanicReflect, conn'))))"

text \<open>
  The loop over the elements of a slice: \<^verbatim>\<open>reflect.Indirect(rv.Index(i))\<close> is the
  element, or what it points to; a nil pointer has no \<^verbatim>\<open>Interface()\<close>.
\<close>

fun insertRows ::
  "DB \<Rightarrow> escValue3 \<Rightarrow> 'c exec \<Rightarrow> 'c \<Rightarrow> gostring \<Rightarrow> val list \<Rightarrow> (error + val list) \<times> 'c" where
  "insertRows db escv exec conn table [] = (Inr [], conn)"
| "insertRows db escv exec conn table (x # xs) =
     (case (case x of
              PtrV t None \<Rightarrow> (Inl PanicReflect, conn)
            | PtrV t (Some row) \<Rightarrow>
                (case insertOne db escv exec conn table row of
                   (Inl e, conn') \<Rightarrow> (Inl e, conn')
                 | (Inr row', conn') \<Rightarrow> (Inr (PtrV t (Some row')), conn'))
            | _ \<Rightarrow> insertOne db escv exec conn table x) of
        (Inl e, conn') \<Rightarrow> (Inl e, conn')
      | (Inr x', conn') \<Rightarrow>
          (case insertRows db escv exec conn' table xs of
             (Inl e, conn'') \<Rightarrow> (Inl e, conn'')
           | (Inr xs', conn'') \<Rightarrow> (Inr (x' # xs'), conn'')))"

text \<open>
  \<^verbatim>\<open>Insert\<close> returns the error, or the data as the call leaves it: the record, or the
  slice with its records.
\<close>

definition Insert ::
  "DB \<Rightarrow> escValue3 \<Rightarrow> 'c exec \<Rightarrow> 'c \<Rightarrow> gostring \<Rightarrow> val \<Rightarrow> (error + val) \<times> 'c" where
  "Insert db escv exec conn table data =
     (case checkData data of
        Inl e \<Rightarrow> (Inl e, conn)
      | Inr (rv, structMode) \<Rightarrow>
          if \<not> structMode then
            (case insertRows db escv exec conn table (items rv) of
               (Inl e, conn') \<Rightarrow> (Inl e, conn')
             | (Inr rows, conn') \<Rightarrow> (Inr (SliceV (Elem (typeOf rv)) (Some rows)), conn'))
          else insertOne db escv exec conn table rv)"

section \<open>Inputs for the examples\<close>

text \<open>
  A configuration with the key sigil \<^verbatim>\<open>@\<close>, the value sigil \<^verbatim>\<open>?\<close>, positional
  placeholders and an escaping function that puts its argument in backquotes; the same
  with numbered placeholders.
\<close>

definition exampleDB :: DB where
  "exampleDB =
     \<lparr>PlaceholderKey = of_char CHR ''@'', PlaceholderValue = of_char CHR ''?'',
      PlaceholderMode = QUESTION, Esc = (\<lambda>s. str ''`'' @ s @ str ''`'')\<rparr>"

definition exampleDollarDB :: DB where
  "exampleDollarDB = exampleDB\<lparr>PlaceholderMode := DOLLAR\<rparr>"

text \<open>
  Modelled from the spec: the value classifier of three results that exec.go calls is
  not in the source files. The spec's Value Policy Engine: a zero value whose
  descriptor allows NULL is the literal \<^verbatim>\<open>null\<close>; a zero value of a pointer field that
  does not allow NULL is an error; every other value is passed through as a bound
  parameter (the empty \<^verbatim>\<open>escV\<close>). It is used in the examples only.
\<close>

definition exampleEscValue :: escValue3 where
  "exampleEscValue v fio =
     (case fio of
        None \<Rightarrow> ([], NilV, Some PanicReflect)
      | Some fi \<Rightarrow>
          (case isZero v of
             Inl e \<Rightarrow> ([], NilV, Some e)
           | Inr z \<Rightarrow>
               if z \<and> allowNull fi then (str ''null'', NilV, None)
               else if z \<and> ptr fi then ([], NilV, Some (ErrOther 0))
               else ([], v, None)))"

text \<open>A driver that accepts every statement and returns the given id; its state is the number of calls.\<close>

definition exampleExec :: "64 word \<Rightarrow> nat exec" where
  "exampleExec insert_id conn expectedRows sql args = (Inr insert_id, Suc conn)"

text \<open>
  Struct fields: \<^verbatim>\<open>A int64 `db:"a,pk"`\<close>, \<^verbatim>\<open>B int64 `db:"b,pk"`\<close>,
  \<^verbatim>\<open>C string `db:"c"`\<close>, \<^verbatim>\<open>P *int `db:"p,notnull"`\<close> and \<^verbatim>\<open>N int64 `db:"n"`\<close>.
\<close>

definition fieldA :: field where
  "fieldA = \<lparr>Name = str ''A'', Tag_db = str ''a,pk'', PkgPath = [], Type_Kind = KInt64\<rparr>"

definition fieldB :: field where
  "fieldB = \<lparr>Name = str ''B'', Tag_db = str ''b,pk'', PkgPath = [], Type_Kind = KInt64\<rparr>"

definition fieldC :: field where
  "fieldC = \<lparr>Name = str ''C'', Tag_db = str ''c'', PkgPath = [], Type_Kind = KString\<rparr>"

definition fieldP :: field where
  "fieldP = \<lparr>Name = str ''P'', Tag_db = str ''p,notnull'', PkgPath = [], Type_Kind = KPtr\<rparr>"

definition fieldN :: field where
  "fieldN = \<lparr>Name = str ''N'', Tag_db = str ''n'', PkgPath = [], Type_Kind = KInt64\<rparr>"

section \<open>Evaluation of the examples\<close>

lemmas example_defs = str_def exampleDB_def exampleDollarDB_def exampleEscValue_def exampleExec_def
  fieldA_def fieldB_def fieldC_def fieldP_def fieldN_def

lemmas extractor_defs = getStructInfo_def fieldInfoOf_def fieldInfoParsed_def kindDefaults_def
  applyModifier_def fixEmptyValue_def allowNull_def

lemmas replace_defs = replaceArgs_def nextRuneOf_def appendPlaceholder_def placeholder_def
  keyArg_def escValue_def isZero_def

lemmas exec_defs = updateClauseFromRow_def updateClauseFromValues_def valuesFromStruct_def
  insertClauseFromValues_def insertStruct_def insertOne_def Insert_def checkData_def
  primaryKey_of_def onlyPrimaryKey_def setInt_def isZero_def

section \<open>The metadata extractor\<close>

text \<open>
  C1 (the claim: a descriptor that forbids NULL never has the empty value \<^verbatim>\<open>null\<close>). The
  code tests \<^verbatim>\<open>info.allowNull() && info.emptyValue == "null"\<close>: it rewrites the empty
  value where NULL is allowed and leaves it where NULL is forbidden. For the struct
  type with the one field \<^verbatim>\<open>P *int `db:"p,notnull"`\<close> the extractor returns a
  descriptor with \<^verbatim>\<open>allowNull() = false\<close> and the empty value \<^verbatim>\<open>null\<close>.
\<close>

theorem getStructInfo_notnull_pointer_keeps_null:
  "getStructInfo [fieldP] =
     Inr [(str ''p'',
           \<lparr>name = str ''P'', dbName = str ''p'', omitEmpty = False, primaryKey = False,
            null_tag = False, notNull = True, emptyValue = str ''null'', ptr = True\<rparr>)] \<and>
   allowNull \<lparr>name = str ''P'', dbName = str ''p'', omitEmpty = False, primaryKey = False,
              null_tag = False, notNull = True, emptyValue = str ''null'', ptr = True\<rparr> = False"
  by (simp add: example_defs extractor_defs)

text \<open>The modifier tokens never touch the empty value.\<close>

lemma emptyValue_applyModifiers: "emptyValue (applyModifiers mods info) = emptyValue info"
  by (induction mods arbitrary: info) (simp_all add: applyModifier_def)

text \<open>
  C8, as amended: for every field that gets a descriptor, the empty value before the
  correction of line 161 is \<^verbatim>\<open>null\<close> for a pointer, \<^verbatim>\<open>0\<close> for the kind
  \<^verbatim>\<open>reflect.Int\<close> alone, and \<^verbatim>\<open>''\<close> for every other kind, the other numeric kinds
  included.
\<close>

theorem fieldInfoParsed_emptyValue:
  "emptyValue (fieldInfoParsed f p0 mods) =
     (if Type_Kind f = KPtr then str ''null''
      else if Type_Kind f = KInt then str ''0''
      else str [CHR 0x27, CHR 0x27])"
  by (simp add: fieldInfoParsed_def Let_def emptyValue_applyModifiers kindDefaults_def
      split: kind.splits)

text \<open>
  C8 as stated fails: the field \<^verbatim>\<open>N int64 `db:"n"`\<close> has a numeric kind and its empty
  value before the correction is \<^verbatim>\<open>''\<close>, not \<^verbatim>\<open>0\<close>.
\<close>

theorem fieldInfoParsed_int64_emptyValue:
  "Type_Kind fieldN = KInt64 \<and>
   emptyValue (fieldInfoParsed fieldN (str ''n'') []) = str [CHR 0x27, CHR 0x27] \<and>
   emptyValue (fieldInfoParsed fieldN (str ''n'') []) \<noteq> str ''0''"
  by (simp add: example_defs extractor_defs)

section \<open>Placeholder substitution\<close>
















text \<open>
  The two other conditions of the amended C5 are needed as well: a \<^verbatim>\<open>[]byte\<close> of two
  bytes is bound as one parameter, and a nil interface among the elements of a
  \<^verbatim>\<open>[]interface{}\<close> makes \<^verbatim>\<open>isZero\<close> panic.
\<close>

lemma replaceArgs_bytes_not_expanded:
  "replaceArgs exampleDB (str ''data = ?'') [SliceV (Basic KUint8) (Some [IntV KUint8 1, IntV KUint8 2])] =
     Inr (str ''data = ?'', [SliceV (Basic KUint8) (Some [IntV KUint8 1, IntV KUint8 2])])"
  by (simp add: example_defs replace_defs)

lemma replaceArgs_nil_interface_element_panics:
  "replaceArgs exampleDB (str ''id IN ?'') [SliceV (Basic KInterface) (Some [IntV KInt 1, NilV])] =
     Inl PanicReflect"
  by (simp add: example_defs replace_defs allowNull_def)

section \<open>The shape check\<close>




section \<open>The UPDATE clause\<close>

text \<open>
  C2 (the claim: the predicates of several primary keys are joined with AND). The loop
  writes \<^verbatim>\<open>col=value\<close> to the WHERE builder for each primary key and nothing between
  two of them, while the SET list gets its comma from \<^verbatim>\<open>idx > 0\<close>. For the record
  \<^verbatim>\<open>{A: 1, B: 2, C: "x"}\<close> with the primary keys \<^verbatim>\<open>a\<close> and \<^verbatim>\<open>b\<close> the two predicates
  stand side by side with no AND.
\<close>

theorem updateClauseFromRow_two_keys_not_joined:
  "updateClauseFromRow exampleDB exampleEscValue (str ''t'')
     (StructV [(fieldA, IntV KInt64 1), (fieldB, IntV KInt64 2), (fieldC, StringV (str ''x''))]) =
   Inr (str ''UPDATE `t` SET `c`=? WHERE `a`=?`b`=?'',
        [IntV KInt64 1, IntV KInt64 2, StringV (str ''x'')])"
  by (simp add: example_defs extractor_defs exec_defs)





section \<open>Insert\<close>

text \<open>\<^verbatim>\<open>onlyPrimaryKey\<close> returns a descriptor exactly when one descriptor is a primary key.\<close>

lemma onlyPrimaryKeyLoop_filter:
  "onlyPrimaryKeyLoop si acc =
     (case acc of
        None \<Rightarrow> (case filter (\<lambda>(k, i). primaryKey i) si of
                   [] \<Rightarrow> None | [(k, i)] \<Rightarrow> Some i | _ \<Rightarrow> None)
      | Some a \<Rightarrow> (if filter (\<lambda>(k, i). primaryKey i) si = [] then Some a else None))"
proof (induction si arbitrary: acc)
  case Nil
  then show ?case by (simp split: option.splits)
next
  case (Cons x si)
  obtain k i where x: "x = (k, i)" by (cases x)
  show ?case
    by (cases acc) (auto simp: x Cons.IH split: list.splits)
qed

lemma onlyPrimaryKey_filter:
  "onlyPrimaryKey si =
     (case filter (\<lambda>(k, i). primaryKey i) si of [] \<Rightarrow> None | [(k, i)] \<Rightarrow> Some i | _ \<Rightarrow> None)"
  by (simp add: onlyPrimaryKey_def onlyPrimaryKeyLoop_filter)







end
